theory Spec2Isabelle
  imports Main "HOL-Library.Log_Nat"
begin

section \<open>JavaScript numbers\<close>

text \<open>
  The client is TypeScript; an amount is a JavaScript \<^verbatim>\<open>number\<close>, an IEEE 754 binary64
  value. A finite number is modelled by the rational it denotes, next to the two
  infinities and NaN. The model has a single zero (the sign of zero is invisible on the
  wire: \<^verbatim>\<open>JSON.stringify(-0)\<close> is \<^verbatim>\<open>"0"\<close>).
\<close>

datatype number = Fin rat | PosInf | NegInf | NaN

text \<open>
  \<open>floor_log2 a\<close> is the binary exponent of a positive rational: the \<open>e\<close> with
  \<open>2 powi e \<le> a < 2 powi (e + 1)\<close>, found from the bit lengths of numerator and
  denominator.
\<close>

definition floor_log2 :: "rat \<Rightarrow> int" where
  "floor_log2 a =
     (case quotient_of a of (n, d) \<Rightarrow>
        let e = bitlen n - bitlen d in if 2 powi e \<le> a then e else e - 1)"

definition round_half_even :: "rat \<Rightarrow> int" where
  "round_half_even q =
     (let f = \<lfloor>q\<rfloor>; r = q - of_int f
      in if r < 1 / 2 then f else if 1 / 2 < r then f + 1 else if even f then f else f + 1)"

text \<open>
  \<open>round_double q\<close> is the binary64 value of the exact result \<open>q\<close> of an arithmetic
  operation: 53 significant bits, round to nearest with ties to even, gradual underflow
  below \<open>2 powi (- 1022)\<close> (the spacing never drops under \<open>2 powi (- 1074)\<close>), and overflow
  to an infinity once the rounded magnitude reaches \<open>2 powi 1024\<close>.
\<close>

definition round_double :: "rat \<Rightarrow> number" where
  "round_double q =
     (if q = 0 then Fin 0
      else
        let a = \<bar>q\<bar>;
            e = max (floor_log2 a) (- 1022);
            u = 2 powi (e - 52);
            r = of_int (round_half_even (a / u)) * u
        in if 2 powi 1024 \<le> r then (if 0 < q then PosInf else NegInf) else Fin (sgn q * r))"

fun is_finite :: "number \<Rightarrow> bool" where
  "is_finite (Fin a) = True"
| "is_finite PosInf = False"
| "is_finite NegInf = False"
| "is_finite NaN = False"

fun positive :: "number \<Rightarrow> bool" where
  "positive (Fin a) = (0 \<le> a)"
| "positive PosInf = True"
| "positive NegInf = False"
| "positive NaN = False"

text \<open>The operators \<^verbatim>\<open>*\<close> and \<^verbatim>\<open>/\<close> on numbers.\<close>

definition js_times :: "number \<Rightarrow> number \<Rightarrow> number" where
  "js_times x y =
     (case (x, y) of
        (Fin a, Fin b) \<Rightarrow> round_double (a * b)
      | _ \<Rightarrow>
        if x = NaN \<or> y = NaN \<or> x = Fin 0 \<or> y = Fin 0 then NaN
        else if positive x = positive y then PosInf else NegInf)"


text \<open>\<^verbatim>\<open>constants.ts\<close>: the two amount multipliers.\<close>

definition API_AMOUNT_MULTIPLIER :: number where
  "API_AMOUNT_MULTIPLIER = Fin 1000000"

definition BOOK_AMOUNT_MULTIPLIER :: number where
  "BOOK_AMOUNT_MULTIPLIER = Fin 100"

section \<open>JavaScript values and JSON\<close>

datatype jsval =
    JUndefined
  | JNull
  | JBool bool
  | JNum number
  | JStr string
  | JArr "jsval list"
  | JObj "(string \<times> jsval) list"

text \<open>
  \<^verbatim>\<open>JSON.stringify\<close>. A JSON text is identified with the value it denotes, so the result
  is again a \<open>jsval\<close>: a property whose value is \<^verbatim>\<open>undefined\<close> is left out, an
  \<^verbatim>\<open>undefined\<close> array element and a non-finite number become \<^verbatim>\<open>null\<close>, and
  \<^verbatim>\<open>JSON.stringify(undefined)\<close> is \<^verbatim>\<open>undefined\<close> (no text at all, \<open>None\<close>).
\<close>

fun JSON_stringify :: "jsval \<Rightarrow> jsval option" where
  "JSON_stringify JUndefined = None"
| "JSON_stringify JNull = Some JNull"
| "JSON_stringify (JBool b) = Some (JBool b)"
| "JSON_stringify (JNum n) = Some (if is_finite n then JNum n else JNull)"
| "JSON_stringify (JStr s) = Some (JStr s)"
| "JSON_stringify (JArr xs) =
     Some (JArr (map (\<lambda>x. case JSON_stringify x of None \<Rightarrow> JNull | Some v \<Rightarrow> v) xs))"
| "JSON_stringify (JObj fs) =
     Some (JObj (concat (map (\<lambda>(k, x). case JSON_stringify x of None \<Rightarrow> [] | Some v \<Rightarrow> [(k, v)]) fs)))"

text \<open>Truthiness, as tested by \<^verbatim>\<open>?:\<close>, \<^verbatim>\<open>!\<close> and \<^verbatim>\<open>||\<close>.\<close>

fun truthy :: "jsval \<Rightarrow> bool" where
  "truthy JUndefined = False"
| "truthy JNull = False"
| "truthy (JBool b) = b"
| "truthy (JNum n) = (n \<noteq> Fin 0 \<and> n \<noteq> NaN)"
| "truthy (JStr s) = (s \<noteq> [])"
| "truthy (JArr xs) = True"
| "truthy (JObj fs) = True"

text \<open>
  String conversion inside a template literal. An integer below \<open>2 ^ 53\<close> in magnitude
  prints as its decimal numeral; the digits of every other finite number (the shortest
  decimal that reads back as the same double) are produced by the JavaScript engine and
  enter the model as the parameter \<open>digits\<close>. The conversion of an object calls its
  \<^verbatim>\<open>toString\<close> method: an array joins its elements, a plain object prints as
  \<^verbatim>\<open>[object Object]\<close>, and an object with a property of its own named \<^verbatim>\<open>toString\<close>
  (which in a decoded JSON text is never a function, and then \<^verbatim>\<open>valueOf\<close> does not give
  a primitive either) makes the conversion throw a \<^verbatim>\<open>TypeError\<close>: the result \<open>None\<close>.
\<close>

fun show_nat :: "nat \<Rightarrow> string" where
  "show_nat n =
     (if n < 10 then [''0123456789'' ! n]
      else show_nat (n div 10) @ [''0123456789'' ! (n mod 10)])"

definition show_int :: "int \<Rightarrow> string" where
  "show_int i = (if i < 0 then ''-'' @ show_nat (nat (- i)) else show_nat (nat i))"

definition Number_toString :: "(rat \<Rightarrow> string) \<Rightarrow> number \<Rightarrow> string" where
  "Number_toString digits n =
     (case n of
        NaN \<Rightarrow> ''NaN''
      | PosInf \<Rightarrow> ''Infinity''
      | NegInf \<Rightarrow> ''-Infinity''
      | Fin q \<Rightarrow>
          if of_int \<lfloor>q\<rfloor> = q \<and> \<bar>q\<bar> < 2 ^ 53 then show_int \<lfloor>q\<rfloor> else digits q)"

fun join :: "string list \<Rightarrow> string" where
  "join [] = []"
| "join [s] = s"
| "join (s # t # ss) = s @ '','' @ join (t # ss)"

fun ToString :: "(rat \<Rightarrow> string) \<Rightarrow> jsval \<Rightarrow> string option" where
  "ToString digits JUndefined = Some ''undefined''"
| "ToString digits JNull = Some ''null''"
| "ToString digits (JBool b) = Some (if b then ''true'' else ''false'')"
| "ToString digits (JNum n) = Some (Number_toString digits n)"
| "ToString digits (JStr s) = Some s"
| "ToString digits (JArr xs) =
     map_option join
       (those (map (\<lambda>x. case x of JUndefined \<Rightarrow> Some [] | JNull \<Rightarrow> Some []
                              | _ \<Rightarrow> ToString digits x) xs))"
| "ToString digits (JObj fs) =
     (if ''toString'' \<in> set (map fst fs) then None else Some ''[object Object]'')"

text \<open>
  What a \<^verbatim>\<open>throw\<close> or a rejected promise carries: an \<^verbatim>\<open>Error\<close> with its message, the
  \<^verbatim>\<open>TypeError\<close> of a property read on \<^verbatim>\<open>null\<close> or \<^verbatim>\<open>undefined\<close>, the
  \<^verbatim>\<open>SyntaxError\<close> of a body that is not JSON, or a failure of the network.
\<close>

datatype error = Error string | TypeError | SyntaxError | NetworkError

text \<open>
  The property read \<^verbatim>\<open>errorData.message\<close> on a decoded body: it throws on \<^verbatim>\<open>null\<close>,
  finds the property of an object (the last one, should the text repeat the key), and is
  \<^verbatim>\<open>undefined\<close> on every other value.
\<close>

fun get_message :: "jsval \<Rightarrow> error + jsval" where
  "get_message JUndefined = Inl TypeError"
| "get_message JNull = Inl TypeError"
| "get_message (JObj fs) =
     (case map_of (rev fs) ''message'' of None \<Rightarrow> Inr JUndefined | Some v \<Rightarrow> Inr v)"
| "get_message v = Inr JUndefined"

text \<open>
  \<^verbatim>\<open>a || b\<close> on values that are a string, \<^verbatim>\<open>undefined\<close> or \<^verbatim>\<open>null\<close> (\<open>None\<close> stands
  for both): the left operand if it is a non-empty string, the right operand otherwise.
\<close>

definition js_or :: "string option \<Rightarrow> string option \<Rightarrow> string option" where
  "js_or a b = (case a of None \<Rightarrow> b | Some s \<Rightarrow> if s \<noteq> [] then Some s else b)"

definition opt_str :: "string option \<Rightarrow> jsval" where
  "opt_str a = (case a of None \<Rightarrow> JUndefined | Some s \<Rightarrow> JStr s)"

text \<open>\<^verbatim>\<open>if (!v) throw new Error(msg)\<close>, returning the string that passed the test.\<close>

definition required :: "string option \<Rightarrow> string \<Rightarrow> error + string" where
  "required v msg =
     (case v of None \<Rightarrow> Inl (Error msg) | Some s \<Rightarrow> if s = [] then Inl (Error msg) else Inr s)"

text \<open>An arithmetic operand that may be \<^verbatim>\<open>undefined\<close> converts to NaN.\<close>

definition to_number :: "number option \<Rightarrow> number" where
  "to_number a = (case a of None \<Rightarrow> NaN | Some n \<Rightarrow> n)"

section \<open>The transport\<close>

text \<open>
  \<^verbatim>\<open>fetch(endpoint, {method, headers, body})\<close> is the one effect of the module. A request
  is what \<^verbatim>\<open>fetch\<close> is called with; a response gives its status and the outcome of
  \<^verbatim>\<open>response.json()\<close>. Every function below threads the list of the requests handed to
  \<^verbatim>\<open>fetch\<close> so far, which is how an invocation of the transport is observed.
\<close>

datatype http_method = POST | GET

record request =
  endpoint :: string
  "method" :: http_method
  headers :: "(string \<times> string) list"
  body :: "jsval option"

record response =
  status :: nat
  statusText :: string
  json :: "error + jsval"

datatype fetch_outcome = Fulfilled response | Rejected error

text \<open>
  The environment of a call: the global \<^verbatim>\<open>fetch\<close>, the query string
  \<^verbatim>\<open>window.location.search\<close> as \<^verbatim>\<open>URLSearchParams\<close> reads it (\<open>location_search g k\<close> is
  \<^verbatim>\<open>urlParams.get(k)\<close>), and the engine's digit generation for numbers. The environment
  is a page in a browser: \<^verbatim>\<open>window\<close> exists. (Where it does not, \<^verbatim>\<open>getUrlParams\<close> throws
  a \<^verbatim>\<open>ReferenceError\<close> at the start of every request function; the model leaves that
  environment out.)
\<close>

record globals =
  fetch :: "request \<Rightarrow> fetch_outcome"
  location_search :: "string \<Rightarrow> string option"
  digits :: "rat \<Rightarrow> string"

text \<open>\<^verbatim>\<open>fetcher.ts\<close>, with the fields of its options object as arguments.\<close>

definition fetcher ::
  "globals \<Rightarrow> (request \<Rightarrow> fetch_outcome) option \<Rightarrow> http_method \<Rightarrow> string \<Rightarrow> jsval
     \<Rightarrow> request list \<Rightarrow> fetch_outcome \<times> request list" where
  "fetcher g fetch_opt m e variables calls =
     (let fetchFn = (case fetch_opt of None \<Rightarrow> fetch g | Some f \<Rightarrow> f);
          init = \<lparr>endpoint = e, method = m,
                   headers = [(''Content-Type'', ''application/json'')],
                   body = (if m = GET then None else JSON_stringify variables)\<rparr>
      in (fetchFn init, calls @ [init]))"

section \<open>The client\<close>

text \<open>
  \<^verbatim>\<open>StakeEngineClient.post\<close> and \<^verbatim>\<open>StakeEngineClient.get\<close> of \<^verbatim>\<open>client.ts\<close>
  (\<^verbatim>\<open>src/unnamed/part_002\<close>). The message of the error thrown on a status other than
  200 is the template literal of the source, whose evaluation itself throws when the
  message of the body has no string conversion; \<^verbatim>\<open>console.error\<close> is not modelled.
\<close>

definition post ::
  "globals \<Rightarrow> string \<Rightarrow> string \<Rightarrow> jsval \<Rightarrow> request list \<Rightarrow> (error + jsval) \<times> request list" where
  "post g url rgsUrl' variables calls =
     (case fetcher g None POST (''https://'' @ rgsUrl' @ url) variables calls of
        (Rejected e, calls') \<Rightarrow> (Inl e, calls')
      | (Fulfilled response, calls') \<Rightarrow>
          if status response \<noteq> 200 then
            (let errorData = (case json response of Inl e \<Rightarrow> JObj [] | Inr v \<Rightarrow> v) in
             case get_message errorData of
               Inl e \<Rightarrow> (Inl e, calls')
             | Inr message \<Rightarrow>
                 (case (if truthy message
                        then map_option (\<lambda>text. '' - '' @ text) (ToString (digits g) message)
                        else Some []) of
                    None \<Rightarrow> (Inl TypeError, calls')
                  | Some suffix \<Rightarrow>
                      (Inl (Error (''RGS API error: '' @ show_nat (status response) @ '' ''
                               @ statusText response @ suffix)),
                       calls')))
          else
            (case json response of
               Inl e \<Rightarrow> (Inl e, calls')
             | Inr data \<Rightarrow> (Inr data, calls')))"

definition get ::
  "globals \<Rightarrow> string \<Rightarrow> string \<Rightarrow> request list \<Rightarrow> (error + jsval) \<times> request list" where
  "get g url rgsUrl' calls =
     (case fetcher g None GET (''https://'' @ rgsUrl' @ url) JUndefined calls of
        (Rejected e, calls') \<Rightarrow> (Inl e, calls')
      | (Fulfilled response, calls') \<Rightarrow>
          if status response \<noteq> 200 then
            (let errorData = (case json response of Inl e \<Rightarrow> JObj [] | Inr v \<Rightarrow> v) in
             case get_message errorData of
               Inl e \<Rightarrow> (Inl e, calls')
             | Inr message \<Rightarrow>
                 (case (if truthy message
                        then map_option (\<lambda>text. '' - '' @ text) (ToString (digits g) message)
                        else Some []) of
                    None \<Rightarrow> (Inl TypeError, calls')
                  | Some suffix \<Rightarrow>
                      (Inl (Error (''RGS API error: '' @ show_nat (status response) @ '' ''
                               @ statusText response @ suffix)),
                       calls')))
          else
            (case json response of
               Inl e \<Rightarrow> (Inl e, calls')
             | Inr data \<Rightarrow> (Inr data, calls')))"

text \<open>
  \<^verbatim>\<open>StakeEngineClient.post\<close> as the second copy of the client has it
  (\<^verbatim>\<open>src/unnamed/part_003\<close>): a status other than 200 is logged and the body is decoded
  and returned all the same.
\<close>

definition post_003 ::
  "globals \<Rightarrow> string \<Rightarrow> string \<Rightarrow> jsval \<Rightarrow> request list \<Rightarrow> (error + jsval) \<times> request list" where
  "post_003 g url rgsUrl' variables calls =
     (case fetcher g None POST (''https://'' @ rgsUrl' @ url) variables calls of
        (Rejected e, calls') \<Rightarrow> (Inl e, calls')
      | (Fulfilled response, calls') \<Rightarrow>
          (case json response of
             Inl e \<Rightarrow> (Inl e, calls')
           | Inr data \<Rightarrow> (Inr data, calls')))"

text \<open>
  The object \<^verbatim>\<open>getUrlParams\<close> returns, and the options object of the six request
  functions. TypeScript's types are erased when the module runs, so every property of an
  options object may be absent (\<open>None\<close>); one record carries the properties that the six
  functions read between them, and each function reads its own.
\<close>

record url_params =
  sessionID :: "string option"
  rgsUrl :: "string option"
  language :: "string option"
  currency :: "string option"

record options = url_params +
  amount :: "number option"
  mode :: "string option"
  eventIndex :: "number option"
  search :: "jsval option"

definition getUrlParams :: "globals \<Rightarrow> url_params" where
  "getUrlParams g =
     (let urlParams = location_search g in
      \<lparr>sessionID = urlParams ''sessionID'',
       rgsUrl = urlParams ''rgs_url'',
       language = js_or (urlParams ''lang'') (Some ''en''),
       currency = js_or (urlParams ''currency'') (Some ''USD'')\<rparr>)"

definition sessionID_required :: string where
  "sessionID_required = ''sessionID is required (provide in options or URL param)''"

definition rgsUrl_required :: string where
  "rgsUrl_required = ''rgsUrl is required (provide in options or rgs_url URL param)''"

text \<open>
  The request functions. An optional options object (\<^verbatim>\<open>options?.sessionID\<close>) is read
  through \<open>Option.bind\<close>; where the object is mandatory, reading a property of a missing
  one throws a \<^verbatim>\<open>TypeError\<close>.
\<close>

definition requestAuthenticate ::
  "globals \<Rightarrow> options option \<Rightarrow> request list \<Rightarrow> (error + jsval) \<times> request list" where
  "requestAuthenticate g opts calls =
     (let urlParams = getUrlParams g;
          sessionID' = js_or (Option.bind opts sessionID) (sessionID urlParams);
          rgsUrl' = js_or (Option.bind opts rgsUrl) (rgsUrl urlParams);
          language' = js_or (Option.bind opts language) (language urlParams)
      in case required sessionID' sessionID_required of
           Inl e \<Rightarrow> (Inl e, calls)
         | Inr s \<Rightarrow>
             (case required rgsUrl' rgsUrl_required of
                Inl e \<Rightarrow> (Inl e, calls)
              | Inr h \<Rightarrow>
                  post g ''/wallet/authenticate'' h
                    (JObj [(''sessionID'', JStr s), (''language'', opt_str language')]) calls))"

definition requestBet ::
  "globals \<Rightarrow> options option \<Rightarrow> request list \<Rightarrow> (error + jsval) \<times> request list" where
  "requestBet g opts calls =
     (let urlParams = getUrlParams g in
      case opts of
        None \<Rightarrow> (Inl TypeError, calls)
      | Some options \<Rightarrow>
          (let sessionID' = js_or (sessionID options) (sessionID urlParams);
               rgsUrl' = js_or (rgsUrl options) (rgsUrl urlParams);
               currency' = js_or (currency options) (currency urlParams)
           in case required sessionID' sessionID_required of
                Inl e \<Rightarrow> (Inl e, calls)
              | Inr s \<Rightarrow>
                  (case required rgsUrl' rgsUrl_required of
                     Inl e \<Rightarrow> (Inl e, calls)
                   | Inr h \<Rightarrow>
                       post g ''/wallet/play'' h
                         (JObj [(''mode'', opt_str (mode options)),
                                (''currency'', opt_str currency'),
                                (''sessionID'', JStr s),
                                (''amount'',
                                 JNum (js_times (to_number (amount options)) API_AMOUNT_MULTIPLIER))])
                         calls)))"

definition requestEndRound ::
  "globals \<Rightarrow> options option \<Rightarrow> request list \<Rightarrow> (error + jsval) \<times> request list" where
  "requestEndRound g opts calls =
     (let urlParams = getUrlParams g;
          sessionID' = js_or (Option.bind opts sessionID) (sessionID urlParams);
          rgsUrl' = js_or (Option.bind opts rgsUrl) (rgsUrl urlParams)
      in case required sessionID' sessionID_required of
           Inl e \<Rightarrow> (Inl e, calls)
         | Inr s \<Rightarrow>
             (case required rgsUrl' rgsUrl_required of
                Inl e \<Rightarrow> (Inl e, calls)
              | Inr h \<Rightarrow> post g ''/wallet/end-round'' h (JObj [(''sessionID'', JStr s)]) calls))"

definition requestEndEvent ::
  "globals \<Rightarrow> options option \<Rightarrow> request list \<Rightarrow> (error + jsval) \<times> request list" where
  "requestEndEvent g opts calls =
     (let urlParams = getUrlParams g in
      case opts of
        None \<Rightarrow> (Inl TypeError, calls)
      | Some options \<Rightarrow>
          (let sessionID' = js_or (sessionID options) (sessionID urlParams);
               rgsUrl' = js_or (rgsUrl options) (rgsUrl urlParams)
           in case required sessionID' sessionID_required of
                Inl e \<Rightarrow> (Inl e, calls)
              | Inr s \<Rightarrow>
                  (case required rgsUrl' rgsUrl_required of
                     Inl e \<Rightarrow> (Inl e, calls)
                   | Inr h \<Rightarrow>
                       post g ''/bet/event'' h
                         (JObj [(''sessionID'', JStr s),
                                (''event'',
                                 JStr (case eventIndex options of
                                         None \<Rightarrow> ''undefined''
                                       | Some n \<Rightarrow> Number_toString (digits g) n))])
                         calls)))"

definition requestForceResult ::
  "globals \<Rightarrow> options option \<Rightarrow> request list \<Rightarrow> (error + jsval) \<times> request list" where
  "requestForceResult g opts calls =
     (let urlParams = getUrlParams g in
      case opts of
        None \<Rightarrow> (Inl TypeError, calls)
      | Some options \<Rightarrow>
          (let rgsUrl' = js_or (rgsUrl options) (rgsUrl urlParams)
           in case required rgsUrl' rgsUrl_required of
                Inl e \<Rightarrow> (Inl e, calls)
              | Inr h \<Rightarrow>
                  post g ''/game/search'' h
                    (JObj [(''mode'', opt_str (mode options)),
                           (''search'', (case search options of None \<Rightarrow> JUndefined | Some v \<Rightarrow> v))])
                    calls))"

definition requestBalance ::
  "globals \<Rightarrow> options option \<Rightarrow> request list \<Rightarrow> (error + jsval) \<times> request list" where
  "requestBalance g opts calls =
     (let urlParams = getUrlParams g;
          sessionID' = js_or (Option.bind opts sessionID) (sessionID urlParams);
          rgsUrl' = js_or (Option.bind opts rgsUrl) (rgsUrl urlParams)
      in case required sessionID' sessionID_required of
           Inl e \<Rightarrow> (Inl e, calls)
         | Inr s \<Rightarrow>
             (case required rgsUrl' rgsUrl_required of
                Inl e \<Rightarrow> (Inl e, calls)
              | Inr h \<Rightarrow> post g ''/wallet/balance'' h (JObj [(''sessionID'', JStr s)]) calls))"

text \<open>The request functions that \<^verbatim>\<open>index.ts\<close> exports: the operations of the client.\<close>

definition operations ::
  "(globals \<Rightarrow> options option \<Rightarrow> request list \<Rightarrow> (error + jsval) \<times> request list) list" where
  "operations =
     [requestAuthenticate, requestBalance, requestBet, requestEndRound, requestEndEvent,
      requestForceResult]"

section \<open>Notions used to state the properties\<close>

text \<open>The operations whose payload carries the session identifier (all but the search).\<close>

definition session_operations ::
  "(globals \<Rightarrow> options option \<Rightarrow> request list \<Rightarrow> (error + jsval) \<times> request list) list" where
  "session_operations =
     [requestAuthenticate, requestBalance, requestBet, requestEndRound, requestEndEvent]"

text \<open>
  A field is missing when neither the options object nor the query string gives a
  non-empty string for it.
\<close>

definition missing :: "string option \<Rightarrow> string option \<Rightarrow> bool" where
  "missing explicit ambient =
     ((explicit = None \<or> explicit = Some []) \<and> (ambient = None \<or> ambient = Some []))"

text \<open>The request that \<open>post\<close> hands to \<^verbatim>\<open>fetch\<close> for a path, a host and a payload.\<close>

definition post_request :: "string \<Rightarrow> string \<Rightarrow> jsval \<Rightarrow> request" where
  "post_request url h variables =
     \<lparr>endpoint = ''https://'' @ h @ url, method = POST,
      headers = [(''Content-Type'', ''application/json'')],
      body = JSON_stringify variables\<rparr>"

text \<open>
  A transport double that answers every request with the response \<open>r\<close>, in an
  environment whose query string is \<open>params\<close>.
\<close>

definition mock :: "response \<Rightarrow> (string \<Rightarrow> string option) \<Rightarrow> globals" where
  "mock r params = \<lparr>fetch = (\<lambda>req. Fulfilled r), location_search = params, digits = (\<lambda>q. [])\<rparr>"

text \<open>An options object with no property set.\<close>

definition no_options :: options where
  "no_options =
     \<lparr>sessionID = None, rgsUrl = None, language = None, currency = None,
      amount = None, mode = None, eventIndex = None, search = None\<rparr>"

text \<open>Inputs of the scenarios: a plain 200 response, a query string, a bet.\<close>

definition ok_response :: response where
  "ok_response = \<lparr>status = 200, statusText = ''OK'', json = Inr (JObj [])\<rparr>"

definition ambient_B_h :: "string \<Rightarrow> string option" where
  "ambient_B_h = [''sessionID'' \<mapsto> ''B'', ''rgs_url'' \<mapsto> ''h'']"

definition bet_scenario :: options where
  "bet_scenario =
     no_options\<lparr>sessionID := Some ''s1'', rgsUrl := Some ''h'', currency := Some ''USD'',
       amount := Some (Fin (5 / 2)), mode := Some ''base''\<rparr>"

section \<open>Rounding to a double\<close>


lemma powi_pos: "0 < (2::rat) powi e"
  by (simp add: zero_less_power_int)

lemma powi_mono: "e \<le> e' \<Longrightarrow> (2::rat) powi e \<le> 2 powi e'"
  by (rule power_int_increasing) simp_all

lemma powi_less_imp_less: "(2::rat) powi e < 2 powi e' \<Longrightarrow> e < e'"
  using powi_mono [of e' e] by (cases "e < e'") auto

lemma floor_log2_bounds:
  assumes "0 < a"
  shows "2 powi (floor_log2 a) \<le> a \<and> a < 2 powi (floor_log2 a + 1)"
proof -
  obtain n d where nd: "quotient_of a = (n, d)"
    by (cases "quotient_of a")
  then have d: "0 < d" and a: "a = of_int n / of_int d"
    using quotient_of_denom_pos [OF nd] quotient_of_div [OF nd] by simp_all
  from assms a d have n: "0 < n"
    by (simp add: zero_less_divide_iff)
  define bn where "bn = bitlen n"
  define bd where "bd = bitlen d"
  from bitlen_bounds [OF n] have n_lo: "2 ^ nat (bn - 1) \<le> n" and n_hi: "n < 2 ^ nat bn"
    by (simp_all add: bn_def)
  from bitlen_bounds [OF d] have d_lo: "2 ^ nat (bd - 1) \<le> d" and d_hi: "d < 2 ^ nat bd"
    by (simp_all add: bd_def)
  have bn1: "1 \<le> bn" using n by (simp add: bn_def bitlen_alt_def)
  have bd1: "1 \<le> bd" using d by (simp add: bd_def bitlen_alt_def)
  have n_lo': "(2::rat) powi (bn - 1) \<le> of_int n"
  proof -
    have "(of_int (2 ^ nat (bn - 1)) :: rat) \<le> of_int n"
      using n_lo by (simp only: of_int_le_iff)
    then show ?thesis using bn1 by (simp add: power_int_def)
  qed
  have n_hi': "of_int n < (2::rat) powi bn"
  proof -
    have "(of_int n :: rat) < of_int (2 ^ nat bn)"
      using n_hi by (simp only: of_int_less_iff)
    then show ?thesis using bn1 by (simp add: power_int_def)
  qed
  have d_lo': "(2::rat) powi (bd - 1) \<le> of_int d"
  proof -
    have "(of_int (2 ^ nat (bd - 1)) :: rat) \<le> of_int d"
      using d_lo by (simp only: of_int_le_iff)
    then show ?thesis using bd1 by (simp add: power_int_def)
  qed
  have d_hi': "of_int d < (2::rat) powi bd"
  proof -
    have "(of_int d :: rat) < of_int (2 ^ nat bd)"
      using d_hi by (simp only: of_int_less_iff)
    then show ?thesis using bd1 by (simp add: power_int_def)
  qed
  have dpos: "(0::rat) < of_int d" using d by simp
  have upper: "a < 2 powi (bn - bd + 1)"
  proof -
    have "of_int n < (2::rat) powi (bn - bd + 1) * 2 powi (bd - 1)"
      using n_hi' by (simp add: power_int_add [symmetric])
    also have "\<dots> \<le> 2 powi (bn - bd + 1) * of_int d"
      using d_lo' powi_pos [of "bn - bd + 1"] by (simp add: mult_left_mono)
    finally show ?thesis
      using dpos by (simp add: a pos_divide_less_eq)
  qed
  have lower: "2 powi (bn - bd - 1) \<le> a"
  proof -
    have "(2::rat) powi (bn - bd - 1) * of_int d \<le> 2 powi (bn - bd - 1) * 2 powi bd"
      using d_hi' powi_pos [of "bn - bd - 1"] by (simp add: mult_left_mono less_imp_le)
    also have "\<dots> = 2 powi (bn - 1)"
      by (simp add: power_int_add [symmetric])
    also have "\<dots> \<le> of_int n" by (rule n_lo')
    finally show ?thesis
      using dpos by (simp add: a pos_le_divide_eq)
  qed
  show ?thesis
  proof (cases "2 powi (bn - bd) \<le> a")
    case True
    then have "floor_log2 a = bn - bd"
      by (simp add: floor_log2_def nd bn_def bd_def Let_def)
    with True upper show ?thesis by simp
  next
    case False
    then have "floor_log2 a = bn - bd - 1"
      by (simp add: floor_log2_def nd bn_def bd_def Let_def)
    with False lower show ?thesis by simp
  qed
qed

lemma floor_log2_unique:
  assumes "0 < a" and "2 powi e \<le> a" and "a < 2 powi (e + 1)"
  shows "floor_log2 a = e"
proof -
  from floor_log2_bounds [OF assms(1)]
  have b: "2 powi (floor_log2 a) \<le> a" "a < 2 powi (floor_log2 a + 1)"
    by simp_all
  from b(1) assms(3) have "(2::rat) powi (floor_log2 a) < 2 powi (e + 1)"
    by (rule le_less_trans)
  then have "floor_log2 a < e + 1" by (rule powi_less_imp_less)
  moreover from assms(2) b(2) have "(2::rat) powi e < 2 powi (floor_log2 a + 1)"
    by (rule le_less_trans)
  then have "e < floor_log2 a + 1" by (rule powi_less_imp_less)
  ultimately show ?thesis by simp
qed






lemma round_double_eq:
  assumes "q \<noteq> 0" and "e = max (floor_log2 \<bar>q\<bar>) (- 1022)" and "u = 2 powi (e - 52)"
    and "m = round_half_even (\<bar>q\<bar> / u)"
  shows "round_double q =
           (if 2 powi 1024 \<le> of_int m * u then (if 0 < q then PosInf else NegInf)
            else Fin (sgn q * (of_int m * u)))"
  using assms(1) unfolding round_double_def Let_def assms(2-4)
  by (simp only: if_False)








lemma js_times_multiplier:
  "js_times x API_AMOUNT_MULTIPLIER =
     (case x of Fin X \<Rightarrow> round_double (X * 1000000) | PosInf \<Rightarrow> PosInf | NegInf \<Rightarrow> NegInf
      | NaN \<Rightarrow> NaN)"
  by (cases x) (simp_all add: js_times_def API_AMOUNT_MULTIPLIER_def)


lemma round_half_even_unique:
  assumes "\<bar>of_int m - t\<bar> < 1 / 2"
  shows "round_half_even t = m"
proof (cases "of_int m \<le> t")
  case True
  with assms have "\<lfloor>t\<rfloor> = m"
    by (intro floor_unique) linarith+
  with assms True show ?thesis
    by (simp add: round_half_even_def Let_def)
next
  case False
  with assms have "\<lfloor>t\<rfloor> = m - 1"
    by (intro floor_unique) (simp, linarith)+
  with assms False show ?thesis
    by (simp add: round_half_even_def Let_def)
qed

text \<open>
  A rounding is checked from its exponent \<open>e\<close> and its significand \<open>m\<close>, with no
  search.
\<close>

lemma round_double_certificate:
  assumes "q \<noteq> 0" and "- 1022 \<le> e" and "2 powi e \<le> \<bar>q\<bar>" and "\<bar>q\<bar> < 2 powi (e + 1)"
    and "\<bar>of_int m - \<bar>q\<bar> / 2 powi (e - 52)\<bar> < 1 / 2"
    and "of_int m * 2 powi (e - 52) < (2::rat) powi 1024"
  shows "round_double q = Fin (sgn q * (of_int m * 2 powi (e - 52)))"
proof -
  have "0 < \<bar>q\<bar>" using assms(1) by simp
  from floor_log2_unique [OF this assms(3,4)] assms(2)
  have "e = max (floor_log2 \<bar>q\<bar>) (- 1022)"
    by (simp add: max_def)
  from round_double_eq [OF assms(1) this refl refl] assms(6)
  show ?thesis
    by (simp add: round_half_even_unique [OF assms(5)])
qed

lemma double_2_01: "round_double (201 / 100) = Fin (1131529406376837 / 562949953421312)"
proof -
  have "round_double (201 / 100) =
          Fin (sgn (201 / 100) * (of_int 4526117625507348 * 2 powi (1 - 52)))"
    by (rule round_double_certificate) (simp_all add: power_int_minus)
  then show ?thesis
    by (simp add: power_int_minus)
qed

lemma product_2_01:
  "js_times (Fin (1131529406376837 / 562949953421312)) API_AMOUNT_MULTIPLIER
     = Fin (8632884264959999 / 4294967296)"
proof -
  have "round_double (1131529406376837 / 562949953421312 * 1000000) =
          Fin (sgn (1131529406376837 / 562949953421312 * 1000000)
               * (of_int 8632884264959999 * 2 powi (20 - 52)))"
    by (rule round_double_certificate) (simp_all add: power_int_minus)
  then show ?thesis
    by (simp add: power_int_minus js_times_multiplier)
qed


text \<open>An integer below \<open>2 ^ 53\<close> in magnitude is a double: rounding leaves it alone.\<close>

lemma round_double_integer:
  assumes "\<bar>n\<bar> < 2 ^ 53"
  shows "round_double (of_int n) = Fin (of_int n)"
proof (cases "n = 0")
  case True
  then show ?thesis by (simp add: round_double_def)
next
  case False
  define a where "a = (of_int \<bar>n\<bar> :: rat)"
  define e where "e = floor_log2 a"
  have a: "0 < a" using False by (simp add: a_def)
  from floor_log2_bounds [OF a] have lo: "2 powi e \<le> a" and hi: "a < 2 powi (e + 1)"
    by (simp_all add: e_def)
  have "a < 2 ^ 53"
  proof -
    have "(of_int \<bar>n\<bar> :: rat) < of_int (2 ^ 53)"
      using assms by (simp only: of_int_less_iff)
    then show ?thesis by (simp add: a_def)
  qed
  with lo have "(2::rat) powi e < 2 powi 53"
    by simp
  then have e53: "e < 53" by (rule powi_less_imp_less)
  have "(1::rat) \<le> a"
  proof -
    have "1 \<le> \<bar>n\<bar>" using False by simp
    then have "(of_int 1 :: rat) \<le> of_int \<bar>n\<bar>"
      by (simp only: of_int_le_iff)
    then show ?thesis by (simp add: a_def)
  qed
  with hi have "(2::rat) powi 0 < 2 powi (e + 1)"
    by simp
  then have e0: "0 \<le> e"
    using powi_less_imp_less [of 0 "e + 1"] by simp
  define s where "s = nat (52 - e)"
  have u: "(2::rat) powi (e - 52) = 1 / 2 ^ s"
    using e53 by (simp add: s_def power_int_def field_simps)
  have t: "a / 2 powi (e - 52) = of_int (\<bar>n\<bar> * 2 ^ s)"
    by (simp add: u a_def)
  have q: "(of_int n :: rat) \<noteq> 0" using False by simp
  have abs_q: "\<bar>of_int n :: rat\<bar> = a" by (simp add: a_def)
  have "round_double (of_int n) =
      Fin (sgn (of_int n) * (of_int (\<bar>n\<bar> * 2 ^ s) * 2 powi (e - 52)))"
  proof (rule round_double_certificate [OF q])
    show "- 1022 \<le> e" using e0 by simp
    show "2 powi e \<le> \<bar>of_int n :: rat\<bar>" using lo by (simp only: abs_q)
    show "\<bar>of_int n :: rat\<bar> < 2 powi (e + 1)" using hi by (simp only: abs_q)
    show "\<bar>of_int (\<bar>n\<bar> * 2 ^ s) - \<bar>of_int n :: rat\<bar> / 2 powi (e - 52)\<bar> < 1 / 2"
      by (simp only: abs_q t)
    have "of_int (\<bar>n\<bar> * 2 ^ s) * 2 powi (e - 52) = a"
      by (simp add: u a_def)
    also have "a < 2 powi 53" using \<open>a < 2 ^ 53\<close> by simp
    also have "(2::rat) powi 53 \<le> 2 powi 1024" by (rule powi_mono) simp
    finally show "of_int (\<bar>n\<bar> * 2 ^ s) * 2 powi (e - 52) < (2::rat) powi 1024" .
  qed
  moreover have "of_int (\<bar>n\<bar> * 2 ^ s) * 2 powi (e - 52) = a"
    by (simp add: u a_def)
  moreover have "sgn (of_int n :: rat) * a = of_int n"
    by (simp only: abs_q [symmetric] sgn_mult_abs)
  ultimately show ?thesis by simp
qed




lemma one_unit: "js_times (Fin 1) API_AMOUNT_MULTIPLIER = Fin 1000000"
  using round_double_integer [of 1000000] by (simp add: js_times_multiplier)

lemma two_and_a_half_units: "js_times (Fin (5 / 2)) API_AMOUNT_MULTIPLIER = Fin 2500000"
  using round_double_integer [of 2500000] by (simp add: js_times_multiplier)


section \<open>The transport is invoked once, with the request built from the arguments\<close>

declare show_nat.simps [simp del]

lemma fetcher_POST:
  "fetcher g None POST e v calls =
     (fetch g \<lparr>endpoint = e, method = POST, headers = [(''Content-Type'', ''application/json'')],
               body = JSON_stringify v\<rparr>,
      calls @ [\<lparr>endpoint = e, method = POST, headers = [(''Content-Type'', ''application/json'')],
               body = JSON_stringify v\<rparr>])"
  by (simp add: fetcher_def Let_def)

lemma post_calls:
  "snd (post g url h v calls) = calls @ [post_request url h v]"
  by (simp add: post_def fetcher_POST post_request_def Let_def
      split: fetch_outcome.splits sum.splits option.splits)

lemma post_200:
  assumes "fetch g (post_request url h v) = Fulfilled r" and "status r = 200" and "json r = Inr d"
  shows "fst (post g url h v calls) = Inr d"
  using assms by (simp add: post_def fetcher_POST post_request_def)

lemma get_message_error: "get_message d = Inl e \<Longrightarrow> e = TypeError"
  by (cases d) (auto split: option.splits)

lemma post_not_200:
  assumes "fetch g (post_request url h v) = Fulfilled r" and "status r \<noteq> 200"
  shows "fst (post g url h v calls) = Inl TypeError
       \<or> (\<exists>suffix. fst (post g url h v calls) =
             Inl (Error (''RGS API error: '' @ show_nat (status r) @ '' '' @ statusText r @ suffix)))"
  using assms
  by (auto simp: post_def fetcher_POST post_request_def Let_def
      dest: get_message_error split: sum.splits option.splits)

lemma post_message_without_string_conversion:
  "fst (post
          (mock \<lparr>status = 500, statusText = ''Internal Server Error'',
                 json = Inr (JObj [(''message'', JObj [(''toString'', JNum (Fin 1))])])\<rparr>
             Map.empty)
          ''/wallet/balance'' ''h'' (JObj [(''sessionID'', JStr ''s1'')]) [])
     = Inl TypeError"
  by (simp add: post_def fetcher_POST mock_def)

lemmas operation_defs =
  requestAuthenticate_def requestBalance_def requestBet_def requestEndRound_def
  requestEndEvent_def requestForceResult_def

lemmas resolution_defs = getUrlParams_def js_or_def required_def Let_def

lemma operations_cases:
  assumes "op \<in> set operations"
  obtains "op = requestAuthenticate" | "op = requestBalance" | "op = requestBet"
    | "op = requestEndRound" | "op = requestEndEvent" | "op = requestForceResult"
  using assms by (auto simp: operations_def)

lemma session_operations_cases:
  assumes "op \<in> set session_operations"
  obtains "op = requestAuthenticate" | "op = requestBalance" | "op = requestBet"
    | "op = requestEndRound" | "op = requestEndEvent"
  using assms by (auto simp: session_operations_def)

lemma post_cong:
  assumes "fetch g = fetch g'" and "digits g = digits g'"
  shows "post g url h v calls = post g' url h v calls"
  using assms
  by (simp add: post_def fetcher_def Let_def
      split: prod.split fetch_outcome.split sum.split option.split)

text \<open>
  An operation depends on its options and on the query string only through the four
  resolved values and its own fields.
\<close>

lemma operation_cong:
  assumes "op \<in> set operations"
    and "js_or (sessionID a) (location_search g ''sessionID'')
         = js_or (sessionID a') (location_search g' ''sessionID'')"
    and "js_or (rgsUrl a) (location_search g ''rgs_url'')
         = js_or (rgsUrl a') (location_search g' ''rgs_url'')"
    and "js_or (language a) (js_or (location_search g ''lang'') (Some ''en''))
         = js_or (language a') (js_or (location_search g' ''lang'') (Some ''en''))"
    and "js_or (currency a) (js_or (location_search g ''currency'') (Some ''USD''))
         = js_or (currency a') (js_or (location_search g' ''currency'') (Some ''USD''))"
    and "amount a = amount a'" and "mode a = mode a'"
    and "eventIndex a = eventIndex a'" and "search a = search a'"
    and "fetch g = fetch g'" and "digits g = digits g'"
  shows "op g (Some a) calls = op g' (Some a') calls"
  using assms(1)
proof (cases rule: operations_cases)
  case 1
  then show ?thesis
    using assms(2-)
    by (simp add: requestAuthenticate_def getUrlParams_def Let_def post_cong [of g g']
        split: sum.split option.split)
next
  case 2
  then show ?thesis
    using assms(2-)
    by (simp add: requestBalance_def getUrlParams_def Let_def post_cong [of g g']
        split: sum.split option.split)
next
  case 3
  then show ?thesis
    using assms(2-)
    by (simp add: requestBet_def getUrlParams_def Let_def post_cong [of g g']
        split: sum.split option.split)
next
  case 4
  then show ?thesis
    using assms(2-)
    by (simp add: requestEndRound_def getUrlParams_def Let_def post_cong [of g g']
        split: sum.split option.split)
next
  case 5
  then show ?thesis
    using assms(2-)
    by (simp add: requestEndEvent_def getUrlParams_def Let_def post_cong [of g g']
        split: sum.split option.split)
next
  case 6
  then show ?thesis
    using assms(2-)
    by (simp add: requestForceResult_def getUrlParams_def Let_def post_cong [of g g']
        split: sum.split option.split)
qed

lemma operation_cases:
  assumes "op \<in> set operations"
  shows "(\<exists>e. op g opts calls = (Inl e, calls)) \<or>
         (\<exists>url h v. h \<noteq> [] \<and> op g opts calls = post g url h v calls)"
proof -
  have "op = requestAuthenticate \<or> op = requestBalance \<or> op = requestBet \<or> op = requestEndRound
        \<or> op = requestEndEvent \<or> op = requestForceResult"
    using assms by (simp add: operations_def)
  then show ?thesis
    by (elim disjE)
      (auto simp: requestAuthenticate_def requestBalance_def requestBet_def requestEndRound_def
         requestEndEvent_def requestForceResult_def required_def Let_def
         split: option.splits sum.splits if_splits)
qed

lemma product_NaN: "js_times NaN y = NaN"
  by (simp add: js_times_def)


lemma required_missing:
  "missing a b \<Longrightarrow> required (js_or a b) msg = Inl (Error msg)"
  by (auto simp: missing_def js_or_def required_def)

lemma required_present:
  "\<not> missing a b \<Longrightarrow> \<exists>s. s \<noteq> [] \<and> required (js_or a b) msg = Inr s"
  by (auto simp: missing_def js_or_def required_def split: option.splits)

lemma session_operation_validation:
  assumes "op \<in> set session_operations"
  shows "((snd (op g (Some args) calls) = calls)
         = (missing (sessionID args) (location_search g ''sessionID'')
            \<or> missing (rgsUrl args) (location_search g ''rgs_url'')))
      \<and> (missing (sessionID args) (location_search g ''sessionID'')
           \<longrightarrow> op g (Some args) calls = (Inl (Error sessionID_required), calls))
      \<and> (\<not> missing (sessionID args) (location_search g ''sessionID'')
           \<and> missing (rgsUrl args) (location_search g ''rgs_url'')
           \<longrightarrow> op g (Some args) calls = (Inl (Error rgsUrl_required), calls))"
proof (cases "missing (sessionID args) (location_search g ''sessionID'')")
  case True
  have "op g (Some args) calls = (Inl (Error sessionID_required), calls)"
    using assms
    by (cases rule: session_operations_cases)
      (simp_all add: operation_defs getUrlParams_def Let_def required_missing [OF True])
  with True show ?thesis by simp
next
  case no_session: False
  from required_present [OF this] obtain s where
    s: "required (js_or (sessionID args) (location_search g ''sessionID'')) sessionID_required = Inr s"
    by blast
  show ?thesis
  proof (cases "missing (rgsUrl args) (location_search g ''rgs_url'')")
    case True
    have "op g (Some args) calls = (Inl (Error rgsUrl_required), calls)"
      using assms
      by (cases rule: session_operations_cases)
        (simp_all add: operation_defs getUrlParams_def Let_def s required_missing [OF True])
    with True no_session show ?thesis by simp
  next
    case False
    from required_present [OF this] obtain h where
      h: "required (js_or (rgsUrl args) (location_search g ''rgs_url'')) rgsUrl_required = Inr h"
      by blast
    have "snd (op g (Some args) calls) \<noteq> calls"
      using assms
      by (cases rule: session_operations_cases)
        (simp_all add: operation_defs getUrlParams_def Let_def s h post_calls)
    with False no_session show ?thesis by simp
  qed
qed

lemma search_validation:
  "((snd (requestForceResult g (Some args) calls) = calls)
        = missing (rgsUrl args) (location_search g ''rgs_url''))
   \<and> (missing (rgsUrl args) (location_search g ''rgs_url'')
        \<longrightarrow> requestForceResult g (Some args) calls = (Inl (Error rgsUrl_required), calls))"
proof (cases "missing (rgsUrl args) (location_search g ''rgs_url'')")
  case True
  then show ?thesis
    by (simp add: requestForceResult_def getUrlParams_def Let_def required_missing)
next
  case False
  from required_present [OF this] obtain h where
    h: "required (js_or (rgsUrl args) (location_search g ''rgs_url'')) rgsUrl_required = Inr h"
    by blast
  with False show ?thesis
    by (simp add: requestForceResult_def getUrlParams_def Let_def post_calls)
qed


lemma specific_fields_unchecked:
  assumes "op \<in> set operations"
  shows "(snd (op g (Some (args\<lparr>amount := a, mode := m, eventIndex := e, search := sr\<rparr>)) calls) = calls)
       = (snd (op g (Some args) calls) = calls)"
proof (cases "op \<in> set session_operations")
  case True
  from session_operation_validation [OF True, of g "args\<lparr>amount := a, mode := m, eventIndex := e, search := sr\<rparr>" calls]
    session_operation_validation [OF True, of g args calls]
  show ?thesis by simp
next
  case False
  with assms have "op = requestForceResult"
    by (auto simp: operations_def session_operations_def)
  with search_validation [of g "args\<lparr>amount := a, mode := m, eventIndex := e, search := sr\<rparr>" calls]
    search_validation [of g args calls]
  show ?thesis by simp
qed

lemma bet_without_amount_and_mode:
  assumes "\<not> missing (sessionID args) (location_search g ''sessionID'')"
    and "\<not> missing (rgsUrl args) (location_search g ''rgs_url'')"
    and "amount args = None" and "mode args = None"
  shows "\<exists>req c s. snd (requestBet g (Some args) calls) = calls @ [req]
               \<and> body req = Some (JObj [(''currency'', JStr c), (''sessionID'', JStr s),
                                         (''amount'', JNull)])"
proof -
  from required_present [OF assms(1)] obtain s where
    s: "required (js_or (sessionID args) (location_search g ''sessionID'')) sessionID_required = Inr s"
    by blast
  from required_present [OF assms(2)] obtain h where
    h: "required (js_or (rgsUrl args) (location_search g ''rgs_url'')) rgsUrl_required = Inr h"
    by blast
  have "\<exists>c. js_or (currency args) (js_or (location_search g ''currency'') (Some ''USD'')) = Some c"
    by (simp add: js_or_def split: option.split)
  then obtain c where
    c: "js_or (currency args) (js_or (location_search g ''currency'') (Some ''USD'')) = Some c"
    by blast
  show ?thesis
    using assms(3,4)
    by (simp add: requestBet_def getUrlParams_def Let_def s h c post_calls post_request_def
        opt_str_def to_number_def product_NaN)
qed

section \<open>The wire amount\<close>




section \<open>The bet request\<close>

text \<open>
  Claim C2 says that a bet call sends a POST to \<^verbatim>\<open>https://{h}/wallet/play\<close> whose body
  holds session identifier, mode and currency unchanged and the amount converted to the
  wire scale, an integer number of millionths. The request is as the claim says, the
  amount apart: the source sends the floating-point product of the amount and 1000000
  without rounding it. For the claim's own amounts 1 and 2.5 the product is the integer
  1000000 and 2500000. For the amount 2.01 (the double nearest to it, which is
  1131529406376837 / 562949953421312) the product is 8632884264959999 / 4294967296,
  that is 2009999.9999999998, where the wire amount is 2010000.
\<close>

theorem bet_request_unrounded_amount:
  "snd (requestBet (mock ok_response Map.empty)
          (Some (bet_scenario\<lparr>amount := Some (round_double (201 / 100))\<rparr>)) []) =
     [\<lparr>endpoint = ''https://h/wallet/play'', method = POST,
       headers = [(''Content-Type'', ''application/json'')],
       body = Some (JObj [(''mode'', JStr ''base''), (''currency'', JStr ''USD''),
                          (''sessionID'', JStr ''s1''),
                          (''amount'', JNum (Fin (8632884264959999 / 4294967296)))])\<rparr>]
   \<and> round_double (201 / 100) = Fin (1131529406376837 / 562949953421312)
   \<and> round (1131529406376837 / 562949953421312 * 1000000 :: rat) = 2010000
   \<and> (8632884264959999 / 4294967296 :: rat) \<noteq> 2010000
   \<and> snd (requestBet (mock ok_response Map.empty) (Some bet_scenario) []) =
     [\<lparr>endpoint = ''https://h/wallet/play'', method = POST,
       headers = [(''Content-Type'', ''application/json'')],
       body = Some (JObj [(''mode'', JStr ''base''), (''currency'', JStr ''USD''),
                          (''sessionID'', JStr ''s1''), (''amount'', JNum (Fin 2500000))])\<rparr>]
   \<and> snd (requestBet (mock ok_response Map.empty)
          (Some (bet_scenario\<lparr>amount := Some (Fin 1)\<rparr>)) []) =
     [\<lparr>endpoint = ''https://h/wallet/play'', method = POST,
       headers = [(''Content-Type'', ''application/json'')],
       body = Some (JObj [(''mode'', JStr ''base''), (''currency'', JStr ''USD''),
                          (''sessionID'', JStr ''s1''), (''amount'', JNum (Fin 1000000))])\<rparr>]"
proof -
  have "round (1131529406376837 / 562949953421312 * 1000000 :: rat) = 2010000"
    by (rule round_unique') simp
  then show ?thesis
    by (simp add: requestBet_def resolution_defs post_calls post_request_def opt_str_def
        to_number_def double_2_01 product_2_01 one_unit two_and_a_half_units
        mock_def bet_scenario_def no_options_def)
qed

section \<open>Domain status codes are data\<close>

text \<open>
  Claim C3. For every operation: when the transport is reached and answers with HTTP
  status 200 and a body that decodes to \<open>v\<close> (whatever \<open>v\<close> is, so also a body whose
  \<^verbatim>\<open>status.statusCode\<close> is a domain error code such as \<^verbatim>\<open>ERR_IPB\<close>), the operation
  succeeds and its result is \<open>v\<close> itself: the body is never inspected and no in-band
  status is turned into a failure.
\<close>

theorem domain_status_passthrough:
  assumes "op \<in> set operations"
    and "\<forall>req. \<exists>r. fetch g req = Fulfilled r \<and> status r = 200 \<and> json r = Inr v"
    and "snd (op g opts calls) \<noteq> calls"
  shows "fst (op g opts calls) = Inr v"
proof -
  from operation_cases [OF assms(1), of g opts calls] assms(3)
  obtain url h w where eq: "op g opts calls = post g url h w calls"
    by auto
  from assms(2) obtain r where "fetch g (post_request url h w) = Fulfilled r"
    "status r = 200" "json r = Inr v"
    by blast
  then show ?thesis
    by (simp add: eq post_200)
qed

theorem domain_status_passthrough_witness:
  "requestBalance \<in> set operations
   \<and> (\<forall>req. \<exists>r. fetch (mock \<lparr>status = 200, statusText = ''OK'',
                              json = Inr (JObj [(''status'', JObj [(''statusCode'', JStr ''ERR_IPB'')])])\<rparr>
                          Map.empty) req = Fulfilled r
          \<and> status r = 200
          \<and> json r = Inr (JObj [(''status'', JObj [(''statusCode'', JStr ''ERR_IPB'')])]))
   \<and> snd (requestBalance
            (mock \<lparr>status = 200, statusText = ''OK'',
                   json = Inr (JObj [(''status'', JObj [(''statusCode'', JStr ''ERR_IPB'')])])\<rparr>
               Map.empty)
            (Some (no_options\<lparr>sessionID := Some ''s1'', rgsUrl := Some ''h''\<rparr>)) []) \<noteq> []
   \<and> fst (requestBalance
            (mock \<lparr>status = 200, statusText = ''OK'',
                   json = Inr (JObj [(''status'', JObj [(''statusCode'', JStr ''ERR_IPB'')])])\<rparr>
               Map.empty)
            (Some (no_options\<lparr>sessionID := Some ''s1'', rgsUrl := Some ''h''\<rparr>)) [])
       = Inr (JObj [(''status'', JObj [(''statusCode'', JStr ''ERR_IPB'')])])"
proof -
  let ?v = "JObj [(''status'', JObj [(''statusCode'', JStr ''ERR_IPB'')])]"
  let ?g = "mock \<lparr>status = 200, statusText = ''OK'', json = Inr ?v\<rparr> Map.empty"
  let ?o = "Some (no_options\<lparr>sessionID := Some ''s1'', rgsUrl := Some ''h''\<rparr>)"
  have a: "requestBalance \<in> set operations"
    by (simp add: operations_def)
  have b: "\<forall>req. \<exists>r. fetch ?g req = Fulfilled r \<and> status r = 200 \<and> json r = Inr ?v"
    by (simp add: mock_def)
  have c: "snd (requestBalance ?g ?o []) \<noteq> []"
    by (simp add: requestBalance_def getUrlParams_def js_or_def required_def no_options_def
        mock_def post_calls)
  from domain_status_passthrough [OF a b c] a b c show ?thesis
    by simp
qed

section \<open>A status other than 200\<close>

text \<open>
  Claim C4 says that every status other than 200 makes the operation fail with an error
  that carries the status, whatever the body, a body that cannot be decoded counting as
  an empty object. The first copy of the client does so, the undecodable body included,
  but for one body: on the JSON text \<^verbatim>\<open>null\<close> the read of \<^verbatim>\<open>errorData.message\<close> throws
  a \<^verbatim>\<open>TypeError\<close>, which carries no status. The second copy of the client
  (\<^verbatim>\<open>src/unnamed/part_003\<close>) never fails on the status: a 500 response is returned as the
  result of the call.
\<close>

theorem http_failure_divergence:
  "fst (post_003
          (mock \<lparr>status = 500, statusText = ''Internal Server Error'',
                 json = Inr (JObj [(''message'', JStr ''boom'')])\<rparr> Map.empty)
          ''/wallet/balance'' ''h'' (JObj [(''sessionID'', JStr ''s1'')]) [])
     = Inr (JObj [(''message'', JStr ''boom'')])
   \<and> fst (post
          (mock \<lparr>status = 500, statusText = ''Internal Server Error'', json = Inr JNull\<rparr> Map.empty)
          ''/wallet/balance'' ''h'' (JObj [(''sessionID'', JStr ''s1'')]) [])
     = Inl TypeError
   \<and> fst (post
          (mock \<lparr>status = 500, statusText = ''Internal Server Error'',
                 json = Inr (JObj [(''message'', JStr ''boom'')])\<rparr> Map.empty)
          ''/wallet/balance'' ''h'' (JObj [(''sessionID'', JStr ''s1'')]) [])
     = Inl (Error ''RGS API error: 500 Internal Server Error - boom'')
   \<and> fst (post
          (mock \<lparr>status = 500, statusText = ''Internal Server Error'', json = Inl SyntaxError\<rparr>
             Map.empty)
          ''/wallet/balance'' ''h'' (JObj [(''sessionID'', JStr ''s1'')]) [])
     = Inl (Error ''RGS API error: 500 Internal Server Error'')"
  by (simp add: post_def post_003_def fetcher_POST mock_def show_nat.simps)

section \<open>Precedence of explicit arguments over the query string\<close>

text \<open>
  Claim C5 says that the explicit argument wins for each field and that the ambient
  source is used only when the explicit field is omitted. An explicit empty string is
  not omitted and still loses: with the explicit \<^verbatim>\<open>sessionID\<close> \<^verbatim>\<open>""\<close> and the query
  string \<^verbatim>\<open>?sessionID=B&rgs_url=h\<close>, the request carries the ambient \<^verbatim>\<open>"B"\<close>.
\<close>

theorem explicit_empty_string_counterexample:
  "snd (requestAuthenticate (mock ok_response ambient_B_h)
          (Some (no_options\<lparr>sessionID := Some []\<rparr>)) []) =
     [\<lparr>endpoint = ''https://h/wallet/authenticate'', method = POST,
       headers = [(''Content-Type'', ''application/json'')],
       body = Some (JObj [(''sessionID'', JStr ''B''), (''language'', JStr ''en'')])\<rparr>]"
  by (simp add: requestAuthenticate_def resolution_defs post_calls post_request_def opt_str_def
      mock_def ambient_B_h_def no_options_def)

text \<open>
  Claim C5, amended. For every operation, every options object and every query string,
  and for each of the four fields: an explicit argument that is a non-empty string wins
  (the outcome of the call is the same whatever the query string holds for that field),
  and an explicit argument that is omitted or the empty string falls back to the ambient
  source (the outcome is that of the call that passes the ambient value, or for language
  and currency the ambient value or the default, as the explicit argument). In
  particular the explicit \<^verbatim>\<open>sessionID\<close> \<^verbatim>\<open>"A"\<close> with the ambient \<^verbatim>\<open>sessionID\<close> \<^verbatim>\<open>"B"\<close>
  and \<^verbatim>\<open>rgs_url\<close> \<^verbatim>\<open>"h"\<close> is sent as \<^verbatim>\<open>"A"\<close> to the host \<^verbatim>\<open>"h"\<close>.
\<close>

theorem config_precedence:
  assumes "op \<in> set operations"
  shows "(\<forall>s x. sessionID args = Some s \<and> s \<noteq> [] \<longrightarrow>
            op (g\<lparr>location_search := (location_search g)(''sessionID'' := x)\<rparr>) (Some args) calls
              = op g (Some args) calls)
       \<and> (\<forall>s x. rgsUrl args = Some s \<and> s \<noteq> [] \<longrightarrow>
            op (g\<lparr>location_search := (location_search g)(''rgs_url'' := x)\<rparr>) (Some args) calls
              = op g (Some args) calls)
       \<and> (\<forall>s x. language args = Some s \<and> s \<noteq> [] \<longrightarrow>
            op (g\<lparr>location_search := (location_search g)(''lang'' := x)\<rparr>) (Some args) calls
              = op g (Some args) calls)
       \<and> (\<forall>s x. currency args = Some s \<and> s \<noteq> [] \<longrightarrow>
            op (g\<lparr>location_search := (location_search g)(''currency'' := x)\<rparr>) (Some args) calls
              = op g (Some args) calls)
       \<and> (sessionID args = None \<or> sessionID args = Some [] \<longrightarrow>
            op g (Some args) calls
              = op g (Some (args\<lparr>sessionID := location_search g ''sessionID''\<rparr>)) calls)
       \<and> (rgsUrl args = None \<or> rgsUrl args = Some [] \<longrightarrow>
            op g (Some args) calls
              = op g (Some (args\<lparr>rgsUrl := location_search g ''rgs_url''\<rparr>)) calls)
       \<and> (language args = None \<or> language args = Some [] \<longrightarrow>
            op g (Some args) calls
              = op g (Some (args\<lparr>language := js_or (location_search g ''lang'') (Some ''en'')\<rparr>)) calls)
       \<and> (currency args = None \<or> currency args = Some [] \<longrightarrow>
            op g (Some args) calls
              = op g (Some (args\<lparr>currency := js_or (location_search g ''currency'') (Some ''USD'')\<rparr>)) calls)
       \<and> (sessionID args = Some ''A'' \<and> rgsUrl args = None
            \<and> location_search g ''sessionID'' = Some ''B'' \<and> location_search g ''rgs_url'' = Some ''h''
            \<longrightarrow> (\<exists>l. snd (requestAuthenticate g (Some args) calls) =
                   calls @ [\<lparr>endpoint = ''https://h/wallet/authenticate'', method = POST,
                              headers = [(''Content-Type'', ''application/json'')],
                              body = Some (JObj [(''sessionID'', JStr ''A''), (''language'', JStr l)])\<rparr>]))"
proof -
  have wins: "op (g\<lparr>location_search := (location_search g)(k := x)\<rparr>) (Some args) calls
        = op g (Some args) calls"
    if "(k = ''sessionID'' \<and> sessionID args = Some s) \<or> (k = ''rgs_url'' \<and> rgsUrl args = Some s)
        \<or> (k = ''lang'' \<and> language args = Some s) \<or> (k = ''currency'' \<and> currency args = Some s)"
      and "s \<noteq> []"
    for k s x
    by (rule operation_cong [OF assms]) (use that in \<open>auto simp: js_or_def\<close>)
  have falls_back:
    "sessionID args = None \<or> sessionID args = Some [] \<Longrightarrow>
       op g (Some args) calls = op g (Some (args\<lparr>sessionID := location_search g ''sessionID''\<rparr>)) calls"
    "rgsUrl args = None \<or> rgsUrl args = Some [] \<Longrightarrow>
       op g (Some args) calls = op g (Some (args\<lparr>rgsUrl := location_search g ''rgs_url''\<rparr>)) calls"
    "language args = None \<or> language args = Some [] \<Longrightarrow>
       op g (Some args) calls
         = op g (Some (args\<lparr>language := js_or (location_search g ''lang'') (Some ''en'')\<rparr>)) calls"
    "currency args = None \<or> currency args = Some [] \<Longrightarrow>
       op g (Some args) calls
         = op g (Some (args\<lparr>currency := js_or (location_search g ''currency'') (Some ''USD'')\<rparr>)) calls"
    by (rule operation_cong [OF assms]; auto simp: js_or_def split: option.split)+
  have example: "\<exists>l. snd (requestAuthenticate g (Some args) calls) =
         calls @ [\<lparr>endpoint = ''https://h/wallet/authenticate'', method = POST,
                    headers = [(''Content-Type'', ''application/json'')],
                    body = Some (JObj [(''sessionID'', JStr ''A''), (''language'', JStr l)])\<rparr>]"
    if "sessionID args = Some ''A''" and "rgsUrl args = None"
      and "location_search g ''rgs_url'' = Some ''h''"
    using that
    by (auto simp: requestAuthenticate_def resolution_defs post_calls post_request_def opt_str_def
        split: option.split)
  from wins falls_back example show ?thesis
    by blast
qed

theorem config_precedence_witness:
  "requestAuthenticate \<in> set operations
   \<and> sessionID (no_options\<lparr>sessionID := Some ''A''\<rparr>) = Some ''A'' \<and> ''A'' \<noteq> []
   \<and> rgsUrl (no_options\<lparr>sessionID := Some ''A''\<rparr>) = None
   \<and> location_search (mock ok_response ambient_B_h) ''sessionID'' = Some ''B''
   \<and> location_search (mock ok_response ambient_B_h) ''rgs_url'' = Some ''h''
   \<and> requestAuthenticate
        ((mock ok_response ambient_B_h)
           \<lparr>location_search := (location_search (mock ok_response ambient_B_h))(''sessionID'' := None)\<rparr>)
        (Some (no_options\<lparr>sessionID := Some ''A''\<rparr>)) []
       = requestAuthenticate (mock ok_response ambient_B_h) (Some (no_options\<lparr>sessionID := Some ''A''\<rparr>)) []
   \<and> requestAuthenticate (mock ok_response ambient_B_h) (Some (no_options\<lparr>sessionID := Some ''A''\<rparr>)) []
       = requestAuthenticate (mock ok_response ambient_B_h)
           (Some (no_options\<lparr>sessionID := Some ''A'', rgsUrl := Some ''h''\<rparr>)) []
   \<and> (\<exists>l. snd (requestAuthenticate (mock ok_response ambient_B_h)
                  (Some (no_options\<lparr>sessionID := Some ''A''\<rparr>)) []) =
          [\<lparr>endpoint = ''https://h/wallet/authenticate'', method = POST,
            headers = [(''Content-Type'', ''application/json'')],
            body = Some (JObj [(''sessionID'', JStr ''A''), (''language'', JStr l)])\<rparr>])"
proof -
  let ?g = "mock ok_response ambient_B_h"
  let ?a = "no_options\<lparr>sessionID := Some ''A''\<rparr>"
  have m: "requestAuthenticate \<in> set operations"
    by (simp add: operations_def)
  have h: "sessionID ?a = Some ''A''" "''A'' \<noteq> []" "rgsUrl ?a = None"
    "location_search ?g ''sessionID'' = Some ''B''" "location_search ?g ''rgs_url'' = Some ''h''"
    by (simp_all add: no_options_def mock_def ambient_B_h_def)
  note t = config_precedence [OF m, of ?a ?g "[]"]
  have a: "requestAuthenticate (?g\<lparr>location_search := (location_search ?g)(''sessionID'' := None)\<rparr>)
        (Some ?a) [] = requestAuthenticate ?g (Some ?a) []"
    using t h(1,2) by blast
  have b: "requestAuthenticate ?g (Some ?a) []
        = requestAuthenticate ?g (Some (?a\<lparr>rgsUrl := location_search ?g ''rgs_url''\<rparr>)) []"
    using t h(3) by blast
  have c: "\<exists>l. snd (requestAuthenticate ?g (Some ?a) []) =
          [] @ [\<lparr>endpoint = ''https://h/wallet/authenticate'', method = POST,
            headers = [(''Content-Type'', ''application/json'')],
            body = Some (JObj [(''sessionID'', JStr ''A''), (''language'', JStr l)])\<rparr>]"
    using t h by blast
  from a b c m h show ?thesis
    by simp
qed

section \<open>A missing session identifier or host stops the call before the network\<close>

text \<open>
  Claim C6. For every operation that resolves a session identifier, a call with neither
  an explicit nor an ambient \<^verbatim>\<open>sessionID\<close> fails with the error whose message names
  \<^verbatim>\<open>sessionID\<close>, and the list of requests handed to the transport is unchanged (no
  network call). With the session identifier resolved but neither an explicit nor an
  ambient \<^verbatim>\<open>rgsUrl\<close>, the call fails in the same way with the error naming
  \<^verbatim>\<open>rgsUrl\<close>; so does the search operation, which resolves the host only. Locale and
  currency never make resolution fail: once session identifier and host are resolved,
  the transport is invoked, whatever the two are. The same holds for the three
  operations that may be called with no options object at all.
\<close>

theorem missing_config_fails:
  assumes "op \<in> set session_operations"
  shows "(sessionID args = None \<and> location_search g ''sessionID'' = None
            \<longrightarrow> op g (Some args) calls = (Inl (Error sessionID_required), calls))
       \<and> ((\<exists>s. s \<noteq> [] \<and> js_or (sessionID args) (location_search g ''sessionID'') = Some s)
          \<and> rgsUrl args = None \<and> location_search g ''rgs_url'' = None
            \<longrightarrow> op g (Some args) calls = (Inl (Error rgsUrl_required), calls))
       \<and> (rgsUrl args = None \<and> location_search g ''rgs_url'' = None
            \<longrightarrow> requestForceResult g (Some args) calls = (Inl (Error rgsUrl_required), calls))
       \<and> ((\<exists>s. s \<noteq> [] \<and> js_or (sessionID args) (location_search g ''sessionID'') = Some s)
          \<and> (\<exists>h. h \<noteq> [] \<and> js_or (rgsUrl args) (location_search g ''rgs_url'') = Some h)
            \<longrightarrow> (\<exists>req. snd (op g (Some args) calls) = calls @ [req]))
       \<and> ((\<exists>h. h \<noteq> [] \<and> js_or (rgsUrl args) (location_search g ''rgs_url'') = Some h)
            \<longrightarrow> (\<exists>req. snd (requestForceResult g (Some args) calls) = calls @ [req]))
       \<and> (location_search g ''sessionID'' = None
            \<longrightarrow> requestAuthenticate g None calls = (Inl (Error sessionID_required), calls)
              \<and> requestBalance g None calls = (Inl (Error sessionID_required), calls)
              \<and> requestEndRound g None calls = (Inl (Error sessionID_required), calls))
       \<and> take 9 sessionID_required = ''sessionID'' \<and> take 6 rgsUrl_required = ''rgsUrl''"
  using assms
  by (cases rule: session_operations_cases)
    (auto simp: operation_defs resolution_defs post_calls sessionID_required_def rgsUrl_required_def
       split: option.splits if_splits)

theorem missing_config_fails_witness:
  "requestBalance \<in> set session_operations
   \<and> sessionID no_options = None \<and> location_search (mock ok_response Map.empty) ''sessionID'' = None
   \<and> requestBalance (mock ok_response Map.empty) (Some no_options) []
       = (Inl (Error sessionID_required), [])
   \<and> js_or (sessionID (no_options\<lparr>sessionID := Some ''s1''\<rparr>))
        (location_search (mock ok_response Map.empty) ''sessionID'') = Some ''s1''
   \<and> requestBalance (mock ok_response Map.empty) (Some (no_options\<lparr>sessionID := Some ''s1''\<rparr>)) []
       = (Inl (Error rgsUrl_required), [])
   \<and> requestForceResult (mock ok_response Map.empty) (Some no_options) []
       = (Inl (Error rgsUrl_required), [])
   \<and> js_or (rgsUrl (no_options\<lparr>sessionID := Some ''s1'', rgsUrl := Some ''h''\<rparr>))
        (location_search (mock ok_response Map.empty) ''rgs_url'') = Some ''h''
   \<and> (\<exists>req. snd (requestBalance (mock ok_response Map.empty)
                    (Some (no_options\<lparr>sessionID := Some ''s1'', rgsUrl := Some ''h''\<rparr>)) []) = [req])
   \<and> requestAuthenticate (mock ok_response Map.empty) None [] = (Inl (Error sessionID_required), [])"
proof -
  let ?g = "mock ok_response Map.empty"
  have m: "requestBalance \<in> set session_operations"
    by (simp add: session_operations_def)
  have h1: "sessionID no_options = None \<and> rgsUrl no_options = None
      \<and> location_search ?g ''sessionID'' = None \<and> location_search ?g ''rgs_url'' = None"
    by (simp add: no_options_def mock_def)
  have h2: "js_or (sessionID (no_options\<lparr>sessionID := Some ''s1''\<rparr>))
        (location_search ?g ''sessionID'') = Some ''s1''
      \<and> rgsUrl (no_options\<lparr>sessionID := Some ''s1''\<rparr>) = None"
    by (simp add: no_options_def mock_def js_or_def)
  have h3: "js_or (sessionID (no_options\<lparr>sessionID := Some ''s1'', rgsUrl := Some ''h''\<rparr>))
        (location_search ?g ''sessionID'') = Some ''s1''
      \<and> js_or (rgsUrl (no_options\<lparr>sessionID := Some ''s1'', rgsUrl := Some ''h''\<rparr>))
        (location_search ?g ''rgs_url'') = Some ''h''"
    by (simp add: no_options_def mock_def js_or_def)
  from missing_config_fails [OF m, of no_options ?g "[]"]
    missing_config_fails [OF m, of "no_options\<lparr>sessionID := Some ''s1''\<rparr>" ?g "[]"]
    missing_config_fails [OF m, of "no_options\<lparr>sessionID := Some ''s1'', rgsUrl := Some ''h''\<rparr>" ?g "[]"]
    m h1 h2 h3
  show ?thesis
    by auto
qed

section \<open>The amount survives the trip to the wire and back\<close>



section \<open>What is validated before the network call\<close>

text \<open>
  Claim C8 says that the bet operation fails, before any network call, when its amount
  or its mode is absent. Nothing checks them: a bet with neither amount nor mode reaches
  the transport and succeeds, the absent amount written as \<^verbatim>\<open>null\<close> (it is the product
  of \<^verbatim>\<open>undefined\<close> and the multiplier, NaN) and the absent mode left out of the body.
\<close>

theorem unvalidated_bet_counterexample:
  "requestBet (mock ok_response Map.empty)
     (Some (no_options\<lparr>sessionID := Some ''s1'', rgsUrl := Some ''h''\<rparr>)) [] =
     (Inr (JObj []),
      [\<lparr>endpoint = ''https://h/wallet/play'', method = POST,
        headers = [(''Content-Type'', ''application/json'')],
        body = Some (JObj [(''currency'', JStr ''USD''), (''sessionID'', JStr ''s1''),
                           (''amount'', JNull)])\<rparr>])"
  by (simp add: requestBet_def resolution_defs post_def fetcher_POST opt_str_def to_number_def
      product_NaN mock_def ok_response_def no_options_def)

text \<open>
  Claim C8, amended. For every operation called with an options object, the only fields
  checked before the network call are the session identifier and the host. The call
  hands nothing to the transport exactly when the session identifier (for the five
  operations that send one) or the host is missing, given neither by the options nor by
  the query string; it then fails with the error naming that field, the session
  identifier first. In every other case the transport is invoked exactly once. The
  operation-specific fields (amount, mode, event index, search criteria) are required by
  the TypeScript parameter types only: whatever they are, present or absent, they do
  not change whether the transport is invoked, and a bet whose amount and mode are
  absent is sent, the amount as \<^verbatim>\<open>null\<close> and the mode left out. The three operations
  whose options parameter is optional behave without the object as with an empty one;
  the three that require it fail without it on the first property read, with a
  \<^verbatim>\<open>TypeError\<close>, and send nothing.
\<close>

theorem only_config_is_validated:
  "(\<forall>op \<in> set session_operations.
      ((snd (op g (Some args) calls) = calls)
         = (missing (sessionID args) (location_search g ''sessionID'')
            \<or> missing (rgsUrl args) (location_search g ''rgs_url'')))
      \<and> (missing (sessionID args) (location_search g ''sessionID'')
           \<longrightarrow> op g (Some args) calls = (Inl (Error sessionID_required), calls))
      \<and> (\<not> missing (sessionID args) (location_search g ''sessionID'')
           \<and> missing (rgsUrl args) (location_search g ''rgs_url'')
           \<longrightarrow> op g (Some args) calls = (Inl (Error rgsUrl_required), calls)))
   \<and> ((snd (requestForceResult g (Some args) calls) = calls)
        = missing (rgsUrl args) (location_search g ''rgs_url''))
   \<and> (missing (rgsUrl args) (location_search g ''rgs_url'')
        \<longrightarrow> requestForceResult g (Some args) calls = (Inl (Error rgsUrl_required), calls))
   \<and> (\<forall>op \<in> set operations.
        snd (op g (Some args) calls) = calls
        \<or> (\<exists>req. snd (op g (Some args) calls) = calls @ [req]))
   \<and> (\<forall>op \<in> set operations. \<forall>a m e sr.
        (snd (op g (Some (args\<lparr>amount := a, mode := m, eventIndex := e, search := sr\<rparr>)) calls) = calls)
          = (snd (op g (Some args) calls) = calls))
   \<and> (\<not> missing (sessionID args) (location_search g ''sessionID'')
        \<and> \<not> missing (rgsUrl args) (location_search g ''rgs_url'')
        \<and> amount args = None \<and> mode args = None
        \<longrightarrow> (\<exists>req c s. snd (requestBet g (Some args) calls) = calls @ [req]
               \<and> body req = Some (JObj [(''currency'', JStr c), (''sessionID'', JStr s),
                                         (''amount'', JNull)])))
   \<and> requestAuthenticate g None calls = requestAuthenticate g (Some no_options) calls
   \<and> requestEndRound g None calls = requestEndRound g (Some no_options) calls
   \<and> requestBalance g None calls = requestBalance g (Some no_options) calls
   \<and> requestBet g None calls = (Inl TypeError, calls)
   \<and> requestEndEvent g None calls = (Inl TypeError, calls)
   \<and> requestForceResult g None calls = (Inl TypeError, calls)"
proof -
  have once: "snd (op g (Some args) calls) = calls
      \<or> (\<exists>req. snd (op g (Some args) calls) = calls @ [req])"
    if "op \<in> set operations" for op
    using operation_cases [OF that, of g "Some args" calls] by (auto simp: post_calls)
  have none: "requestAuthenticate g None calls = requestAuthenticate g (Some no_options) calls"
    "requestEndRound g None calls = requestEndRound g (Some no_options) calls"
    "requestBalance g None calls = requestBalance g (Some no_options) calls"
    "requestBet g None calls = (Inl TypeError, calls)"
    "requestEndEvent g None calls = (Inl TypeError, calls)"
    "requestForceResult g None calls = (Inl TypeError, calls)"
    by (simp_all add: operation_defs no_options_def Let_def)
  from session_operation_validation [where g = g and args = args and calls = calls]
    search_validation [of g args calls]
    specific_fields_unchecked [where g = g and args = args and calls = calls]
    bet_without_amount_and_mode [of args g calls] once none
  show ?thesis
    by blast
qed

theorem only_config_is_validated_witness:
  "requestBet \<in> set session_operations \<and> requestBet \<in> set operations
   \<and> missing (sessionID no_options) (location_search (mock ok_response Map.empty) ''sessionID'')
   \<and> requestBet (mock ok_response Map.empty) (Some no_options) []
       = (Inl (Error sessionID_required), [])
   \<and> \<not> missing (sessionID (no_options\<lparr>sessionID := Some ''s1''\<rparr>))
          (location_search (mock ok_response Map.empty) ''sessionID'')
   \<and> missing (rgsUrl (no_options\<lparr>sessionID := Some ''s1''\<rparr>))
          (location_search (mock ok_response Map.empty) ''rgs_url'')
   \<and> requestBet (mock ok_response Map.empty) (Some (no_options\<lparr>sessionID := Some ''s1''\<rparr>)) []
       = (Inl (Error rgsUrl_required), [])
   \<and> \<not> missing (rgsUrl (no_options\<lparr>sessionID := Some ''s1'', rgsUrl := Some ''h''\<rparr>))
          (location_search (mock ok_response Map.empty) ''rgs_url'')
   \<and> amount (no_options\<lparr>sessionID := Some ''s1'', rgsUrl := Some ''h''\<rparr>) = None
   \<and> mode (no_options\<lparr>sessionID := Some ''s1'', rgsUrl := Some ''h''\<rparr>) = None
   \<and> snd (requestBet (mock ok_response Map.empty)
            (Some (no_options\<lparr>sessionID := Some ''s1'', rgsUrl := Some ''h''\<rparr>)) []) \<noteq> []
   \<and> (\<exists>req c s. snd (requestBet (mock ok_response Map.empty)
                       (Some (no_options\<lparr>sessionID := Some ''s1'', rgsUrl := Some ''h''\<rparr>)) []) = [req]
         \<and> body req = Some (JObj [(''currency'', JStr c), (''sessionID'', JStr s),
                                   (''amount'', JNull)]))"
proof -
  let ?g = "mock ok_response Map.empty"
  let ?a = "no_options\<lparr>sessionID := Some ''s1''\<rparr>"
  let ?b = "no_options\<lparr>sessionID := Some ''s1'', rgsUrl := Some ''h''\<rparr>"
  have m: "requestBet \<in> set session_operations" "requestBet \<in> set operations"
    by (simp_all add: session_operations_def operations_def)
  have h: "missing (sessionID no_options) (location_search ?g ''sessionID'')"
    "\<not> missing (sessionID ?a) (location_search ?g ''sessionID'')"
    "missing (rgsUrl ?a) (location_search ?g ''rgs_url'')"
    "\<not> missing (sessionID ?b) (location_search ?g ''sessionID'')"
    "\<not> missing (rgsUrl ?b) (location_search ?g ''rgs_url'')"
    "amount ?b = None" "mode ?b = None"
    by (simp_all add: missing_def no_options_def mock_def)
  note t0 = only_config_is_validated [where g = ?g and args = no_options and calls = "[]"]
  note t1 = only_config_is_validated [where g = ?g and args = ?a and calls = "[]"]
  note t2 = only_config_is_validated [where g = ?g and args = ?b and calls = "[]"]
  have a: "requestBet ?g (Some no_options) [] = (Inl (Error sessionID_required), [])"
    using t0 m(1) h(1) by blast
  have b: "requestBet ?g (Some ?a) [] = (Inl (Error rgsUrl_required), [])"
    using t1 m(1) h(2,3) by blast
  have c: "snd (requestBet ?g (Some ?b) []) \<noteq> []"
    using t2 m(1) h(4,5) by blast
  have d: "\<exists>req c s. snd (requestBet ?g (Some ?b) []) = [] @ [req]
         \<and> body req = Some (JObj [(''currency'', JStr c), (''sessionID'', JStr s),
                                   (''amount'', JNull)])"
    using t2 h(4,5,6,7) by blast
  from m h a b c d show ?thesis
    by simp
qed

section \<open>The authenticate scenario\<close>

text \<open>
  Claim C9 says that every authenticate call with the explicit \<^verbatim>\<open>sessionID\<close> \<^verbatim>\<open>"s1"\<close>
  and \<^verbatim>\<open>rgsUrl\<close> \<^verbatim>\<open>"api.example.com"\<close> and no explicit language sends the language
  \<^verbatim>\<open>"en"\<close>. The language, like the other three fields, falls back to the query string
  before it falls back to the default: on a page opened with \<^verbatim>\<open>?lang=fr\<close> the same call
  sends \<^verbatim>\<open>"fr"\<close>.
\<close>

theorem ambient_locale_counterexample:
  "snd (requestAuthenticate (mock ok_response [''lang'' \<mapsto> ''fr''])
          (Some (no_options\<lparr>sessionID := Some ''s1'', rgsUrl := Some ''api.example.com''\<rparr>)) []) =
     [\<lparr>endpoint = ''https://api.example.com/wallet/authenticate'', method = POST,
       headers = [(''Content-Type'', ''application/json'')],
       body = Some (JObj [(''sessionID'', JStr ''s1''), (''language'', JStr ''fr'')])\<rparr>]
   \<and> ''fr'' \<noteq> ''en''"
  by (simp add: requestAuthenticate_def resolution_defs post_calls post_request_def opt_str_def
      mock_def no_options_def)

text \<open>
  Claim C9, amended. Every authenticate call with the explicit \<^verbatim>\<open>sessionID\<close> \<^verbatim>\<open>"s1"\<close>
  and \<^verbatim>\<open>rgsUrl\<close> \<^verbatim>\<open>"api.example.com"\<close> and no explicit language hands the transport
  exactly one request, \<^verbatim>\<open>POST https://api.example.com/wallet/authenticate\<close>, whose JSON
  body is \<^verbatim>\<open>{sessionID: "s1", language: l}\<close>: \<open>l\<close> is the \<^verbatim>\<open>lang\<close> parameter of the
  query string when that is a non-empty string, and otherwise the default \<^verbatim>\<open>"en"\<close>.
\<close>

theorem authenticate_default_locale:
  assumes "sessionID args = Some ''s1''" and "rgsUrl args = Some ''api.example.com''"
    and "language args = None"
  shows "snd (requestAuthenticate g (Some args) calls) =
           calls @ [\<lparr>endpoint = ''https://api.example.com/wallet/authenticate'', method = POST,
                      headers = [(''Content-Type'', ''application/json'')],
                      body = Some (JObj [(''sessionID'', JStr ''s1''),
                                         (''language'',
                                          JStr (case location_search g ''lang'' of
                                                  None \<Rightarrow> ''en''
                                                | Some l \<Rightarrow> if l = [] then ''en'' else l))])\<rparr>]"
  using assms
  by (auto simp: requestAuthenticate_def resolution_defs post_calls post_request_def opt_str_def
      split: option.split)

theorem authenticate_default_locale_witness:
  "sessionID (no_options\<lparr>sessionID := Some ''s1'', rgsUrl := Some ''api.example.com''\<rparr>) = Some ''s1''
   \<and> rgsUrl (no_options\<lparr>sessionID := Some ''s1'', rgsUrl := Some ''api.example.com''\<rparr>)
       = Some ''api.example.com''
   \<and> language (no_options\<lparr>sessionID := Some ''s1'', rgsUrl := Some ''api.example.com''\<rparr>) = None
   \<and> snd (requestAuthenticate (mock ok_response Map.empty)
            (Some (no_options\<lparr>sessionID := Some ''s1'', rgsUrl := Some ''api.example.com''\<rparr>)) []) =
         [\<lparr>endpoint = ''https://api.example.com/wallet/authenticate'', method = POST,
           headers = [(''Content-Type'', ''application/json'')],
           body = Some (JObj [(''sessionID'', JStr ''s1''), (''language'', JStr ''en'')])\<rparr>]"
proof -
  let ?a = "no_options\<lparr>sessionID := Some ''s1'', rgsUrl := Some ''api.example.com''\<rparr>"
  let ?g = "mock ok_response Map.empty"
  have h: "sessionID ?a = Some ''s1''" "rgsUrl ?a = Some ''api.example.com''" "language ?a = None"
    by (simp_all add: no_options_def)
  have l: "location_search ?g ''lang'' = None"
    by (simp add: mock_def)
  from authenticate_default_locale [of ?a ?g "[]", OF h] h l show ?thesis
    by simp
qed

section \<open>An empty string is an omitted argument\<close>

text \<open>
  Claim C10. For every operation and each of the four fields (\<^verbatim>\<open>sessionID\<close>,
  \<^verbatim>\<open>rgsUrl\<close>, \<^verbatim>\<open>language\<close>, \<^verbatim>\<open>currency\<close>), a call that supplies the empty string behaves
  exactly as the call that omits the field, which is the call that supplies the ambient
  value (for language and currency: the ambient value or the default). If the ambient
  \<^verbatim>\<open>sessionID\<close> is absent or empty too, an operation that resolves it fails with the
  error naming \<^verbatim>\<open>sessionID\<close>; if the ambient \<^verbatim>\<open>rgs_url\<close> is absent or empty too, the
  call fails as missing with no request handed to the transport. An empty string is
  never the resolved value.
\<close>

theorem empty_string_is_omitted:
  assumes "op \<in> set operations"
  shows "op g (Some (args\<lparr>sessionID := Some []\<rparr>)) calls = op g (Some (args\<lparr>sessionID := None\<rparr>)) calls
       \<and> op g (Some (args\<lparr>sessionID := Some []\<rparr>)) calls
           = op g (Some (args\<lparr>sessionID := sessionID (getUrlParams g)\<rparr>)) calls
       \<and> op g (Some (args\<lparr>rgsUrl := Some []\<rparr>)) calls = op g (Some (args\<lparr>rgsUrl := None\<rparr>)) calls
       \<and> op g (Some (args\<lparr>rgsUrl := Some []\<rparr>)) calls
           = op g (Some (args\<lparr>rgsUrl := rgsUrl (getUrlParams g)\<rparr>)) calls
       \<and> op g (Some (args\<lparr>language := Some []\<rparr>)) calls = op g (Some (args\<lparr>language := None\<rparr>)) calls
       \<and> op g (Some (args\<lparr>language := Some []\<rparr>)) calls
           = op g (Some (args\<lparr>language := language (getUrlParams g)\<rparr>)) calls
       \<and> op g (Some (args\<lparr>currency := Some []\<rparr>)) calls = op g (Some (args\<lparr>currency := None\<rparr>)) calls
       \<and> op g (Some (args\<lparr>currency := Some []\<rparr>)) calls
           = op g (Some (args\<lparr>currency := currency (getUrlParams g)\<rparr>)) calls
       \<and> (op \<in> set session_operations
           \<and> (location_search g ''sessionID'' = None \<or> location_search g ''sessionID'' = Some [])
           \<longrightarrow> op g (Some (args\<lparr>sessionID := Some []\<rparr>)) calls
                 = (Inl (Error sessionID_required), calls))
       \<and> ((location_search g ''rgs_url'' = None \<or> location_search g ''rgs_url'' = Some [])
           \<longrightarrow> snd (op g (Some (args\<lparr>rgsUrl := Some []\<rparr>)) calls) = calls
               \<and> (fst (op g (Some (args\<lparr>rgsUrl := Some []\<rparr>)) calls) = Inl (Error rgsUrl_required)
                  \<or> fst (op g (Some (args\<lparr>rgsUrl := Some []\<rparr>)) calls) = Inl (Error sessionID_required)))"
proof -
  have same: "op g (Some (args\<lparr>sessionID := Some []\<rparr>)) calls = op g (Some (args\<lparr>sessionID := None\<rparr>)) calls
       \<and> op g (Some (args\<lparr>sessionID := Some []\<rparr>)) calls
           = op g (Some (args\<lparr>sessionID := sessionID (getUrlParams g)\<rparr>)) calls
       \<and> op g (Some (args\<lparr>rgsUrl := Some []\<rparr>)) calls = op g (Some (args\<lparr>rgsUrl := None\<rparr>)) calls
       \<and> op g (Some (args\<lparr>rgsUrl := Some []\<rparr>)) calls
           = op g (Some (args\<lparr>rgsUrl := rgsUrl (getUrlParams g)\<rparr>)) calls
       \<and> op g (Some (args\<lparr>language := Some []\<rparr>)) calls = op g (Some (args\<lparr>language := None\<rparr>)) calls
       \<and> op g (Some (args\<lparr>language := Some []\<rparr>)) calls
           = op g (Some (args\<lparr>language := language (getUrlParams g)\<rparr>)) calls
       \<and> op g (Some (args\<lparr>currency := Some []\<rparr>)) calls = op g (Some (args\<lparr>currency := None\<rparr>)) calls
       \<and> op g (Some (args\<lparr>currency := Some []\<rparr>)) calls
           = op g (Some (args\<lparr>currency := currency (getUrlParams g)\<rparr>)) calls"
    by (intro conjI operation_cong [OF assms])
      (simp_all add: js_or_def getUrlParams_def Let_def split: option.split)
  have missing_session: "op g (Some (args\<lparr>sessionID := Some []\<rparr>)) calls
        = (Inl (Error sessionID_required), calls)"
    if "op \<in> set session_operations"
      and "location_search g ''sessionID'' = None \<or> location_search g ''sessionID'' = Some []"
    using that
    by (cases rule: session_operations_cases)
      (auto simp: operation_defs resolution_defs)
  have missing_host: "snd (op g (Some (args\<lparr>rgsUrl := Some []\<rparr>)) calls) = calls
        \<and> (fst (op g (Some (args\<lparr>rgsUrl := Some []\<rparr>)) calls) = Inl (Error rgsUrl_required)
           \<or> fst (op g (Some (args\<lparr>rgsUrl := Some []\<rparr>)) calls) = Inl (Error sessionID_required))"
    if "location_search g ''rgs_url'' = None \<or> location_search g ''rgs_url'' = Some []"
    using assms that
    by (cases rule: operations_cases)
      (auto simp: operation_defs resolution_defs split: option.splits)
  from same missing_session missing_host show ?thesis
    by blast
qed

theorem empty_string_is_omitted_witness:
  "requestAuthenticate \<in> set operations \<and> requestAuthenticate \<in> set session_operations
   \<and> location_search (mock ok_response Map.empty) ''sessionID'' = None
   \<and> requestAuthenticate (mock ok_response Map.empty) (Some (no_options\<lparr>sessionID := Some []\<rparr>)) []
       = (Inl (Error sessionID_required), [])
   \<and> requestAuthenticate (mock ok_response ambient_B_h) (Some (no_options\<lparr>sessionID := Some []\<rparr>)) []
       = requestAuthenticate (mock ok_response ambient_B_h) (Some (no_options\<lparr>sessionID := Some ''B''\<rparr>)) []"
proof -
  have m: "requestAuthenticate \<in> set operations" "requestAuthenticate \<in> set session_operations"
    by (simp_all add: operations_def session_operations_def)
  have h: "location_search (mock ok_response Map.empty) ''sessionID'' = None"
    "sessionID (getUrlParams (mock ok_response ambient_B_h)) = Some ''B''"
    by (simp_all add: mock_def getUrlParams_def ambient_B_h_def)
  have a: "requestAuthenticate (mock ok_response Map.empty) (Some (no_options\<lparr>sessionID := Some []\<rparr>)) []
       = (Inl (Error sessionID_required), [])"
    using empty_string_is_omitted [OF m(1), of "mock ok_response Map.empty" no_options "[]"] m(2) h(1)
    by blast
  have b: "requestAuthenticate (mock ok_response ambient_B_h) (Some (no_options\<lparr>sessionID := Some []\<rparr>)) []
       = requestAuthenticate (mock ok_response ambient_B_h)
           (Some (no_options\<lparr>sessionID := sessionID (getUrlParams (mock ok_response ambient_B_h))\<rparr>)) []"
    using empty_string_is_omitted [OF m(1), of "mock ok_response ambient_B_h" no_options "[]"]
    by blast
  from a b m h show ?thesis
    by simp
qed

end
